theory Spec2Isabelle
  imports Main
begin

section \<open>JavaScript string operations used by \<open>sources.js\<close>\<close>

text \<open>
  Strings are lists of characters.  Only the operations the module calls are
  modelled, each with the behaviour of the corresponding
  \<^verbatim>\<open>String.prototype\<close> method on the arguments the module passes.
\<close>

definition startsWith :: "string \<Rightarrow> string \<Rightarrow> bool" where
  "startsWith s p = (take (length p) s = p)"

definition endsWith :: "string \<Rightarrow> string \<Rightarrow> bool" where
  "endsWith s p = (length p \<le> length s \<and> drop (length s - length p) s = p)"

text \<open>
  \<^verbatim>\<open>s.replace(/<suffix>$/, "")\<close> for a literal suffix (\<^verbatim>\<open>[.]json\<close>,
  \<^verbatim>\<open>_meta[.]json\<close>, \<^verbatim>\<open>_tree[.]json\<close>, \<^verbatim>\<open>[.]md\<close>): without the
  \<^verbatim>\<open>m\<close> flag the anchor matches at the end of the input only.
  \<open>replace_suffix\<close> is the form with a replacement text.
\<close>

definition replace_suffix :: "string \<Rightarrow> string \<Rightarrow> string \<Rightarrow> string" where
  "replace_suffix suffix rep s =
     (if endsWith s suffix then take (length s - length suffix) s @ rep else s)"

definition strip_suffix :: "string \<Rightarrow> string \<Rightarrow> string" where
  "strip_suffix suffix s = replace_suffix suffix [] s"

text \<open>\<^verbatim>\<open>s.replace(/^_/, "")\<close>\<close>

fun strip_leading_underscore :: "string \<Rightarrow> string" where
  "strip_leading_underscore [] = []"
| "strip_leading_underscore (c # cs) = (if c = CHR ''_'' then cs else c # cs)"

text \<open>
  \<^verbatim>\<open>s.replace(pattern, "")\<close> with a string pattern: the first occurrence of
  the pattern, wherever it is, is removed.
\<close>

fun remove_first :: "string \<Rightarrow> string \<Rightarrow> string" where
  "remove_first pat [] = []"
| "remove_first pat (c # cs) =
     (if startsWith (c # cs) pat then drop (length pat) (c # cs)
      else c # remove_first pat cs)"

text \<open>\<^verbatim>\<open>s.split(sep)\<close> for a one-character separator; the empty string splits into \<^verbatim>\<open>[""]\<close>.\<close>

fun split :: "char \<Rightarrow> string \<Rightarrow> string list" where
  "split sep [] = [[]]"
| "split sep (c # cs) =
     (if c = sep then [] # split sep cs
      else (case split sep cs of
              [] \<Rightarrow> [[c]]
            | w # ws \<Rightarrow> (c # w) # ws))"

text \<open>\<^verbatim>\<open>parts.join(sep)\<close>\<close>

fun join :: "string \<Rightarrow> string list \<Rightarrow> string" where
  "join sep [] = []"
| "join sep [x] = x"
| "join sep (x # y # ys) = x @ sep @ join sep (y # ys)"

text \<open>A template literal renders a missing (\<^verbatim>\<open>undefined\<close>) property as the text \<^verbatim>\<open>undefined\<close>.\<close>

fun template :: "string option \<Rightarrow> string" where
  "template None = ''undefined''"
| "template (Some s) = s"


section \<open>Errors\<close>

text \<open>
  Every \<^verbatim>\<open>throw\<close> and every rejected promise is a value.  The module
  \<^verbatim>\<open>./exceptions\<close> is imported by \<open>sources.js\<close>; its two classes appear here
  by name only.  \<open>Rejected\<close> is the failure of an external call
  (\<^verbatim>\<open>fetch\<close>, \<^verbatim>\<open>response.json()\<close>, the S3 client, \<^verbatim>\<open>new URL\<close>);
  \<open>TypeError\<close> is the call of a member that no class of the chain declares.
\<close>

datatype error =
    NoDatasetPathError
  | InvalidSourceImplementation string
  | Error string
  | Rejected string
  | TypeError string


section \<open>The Source classes\<close>

text \<open>
  The ten classes of the module, and \<open>Subclass n b p\<close> for a further
  declaration of the shape the module uses for its group sources,
  \<^verbatim>\<open>class X extends p { static get _name() { return n; } }\<close>, with
  \<^verbatim>\<open>get bucket() { return b'; }\<close> added when \<open>b = Some b'\<close>
  (\<^verbatim>\<open>SeattleFluSource\<close> has the first form, \<^verbatim>\<open>InrbDrcSource\<close> the second).
\<close>

datatype source_class =
    Source
  | CoreSource
  | CoreStagingSource
  | CommunitySource
  | S3Source
  | PrivateS3Source
  | PublicGroupSource
  | PrivateGroupSource
  | InrbDrcSource
  | SeattleFluSource
  | Subclass string "string option" source_class

text \<open>The \<^verbatim>\<open>extends\<close> chain of a class, the class itself first.\<close>

fun ancestors :: "source_class \<Rightarrow> source_class list" where
  "ancestors Source = [Source]"
| "ancestors CoreSource = [CoreSource, Source]"
| "ancestors CoreStagingSource = [CoreStagingSource, CoreSource, Source]"
| "ancestors CommunitySource = [CommunitySource, Source]"
| "ancestors S3Source = [S3Source, Source]"
| "ancestors PrivateS3Source = [PrivateS3Source, S3Source, Source]"
| "ancestors PublicGroupSource = [PublicGroupSource, S3Source, Source]"
| "ancestors PrivateGroupSource = [PrivateGroupSource, PrivateS3Source, S3Source, Source]"
| "ancestors InrbDrcSource = [InrbDrcSource, PrivateGroupSource, PrivateS3Source, S3Source, Source]"
| "ancestors SeattleFluSource = [SeattleFluSource, PublicGroupSource, S3Source, Source]"
| "ancestors (Subclass n b p) = Subclass n b p # ancestors p"

text \<open>
  Member lookup: \<open>own\<close> gives the member a class declares itself, and the
  first declaration along the chain is the one a call reaches.
\<close>

primrec first_declared :: "('c \<Rightarrow> 'm option) \<Rightarrow> 'c list \<Rightarrow> 'm option" where
  "first_declared own [] = None"
| "first_declared own (c # cs) =
     (case own c of Some m \<Rightarrow> Some m | None \<Rightarrow> first_declared own cs)"

definition lookup :: "(source_class \<Rightarrow> 'm option) \<Rightarrow> source_class \<Rightarrow> 'm option" where
  "lookup own c = first_declared own (ancestors c)"

text \<open>
  An instance: its class, and the two fields the \<^verbatim>\<open>CommunitySource\<close>
  constructor sets (\<open>None\<close> where no constructor set them).
\<close>

record source =
  constructor :: source_class
  owner :: "string option"
  repoName :: "string option"

text \<open>
  \<^verbatim>\<open>new C(owner, repoName)\<close>.  Only \<^verbatim>\<open>CommunitySource\<close> declares a
  constructor; a class that has it in its chain runs it, any other class
  ignores the arguments.  \<^verbatim>\<open>!owner\<close> holds for a missing and for an empty
  string.  The messages interpolate \<^verbatim>\<open>this.constructor.name\<close>, written here
  as it reads for \<^verbatim>\<open>CommunitySource\<close> itself.
\<close>

definition falsy :: "string option \<Rightarrow> bool" where
  "falsy s = (s = None \<or> s = Some [])"

definition new_source :: "source_class \<Rightarrow> string option \<Rightarrow> string option \<Rightarrow> error + source" where
  "new_source c ownr rname =
     (if CommunitySource \<in> set (ancestors c) then
        (if falsy ownr then Inl (Error ''Cannot construct a CommunitySource without an owner'')
         else if falsy rname then Inl (Error ''Cannot construct a CommunitySource without an repoName'')
         else Inr \<lparr>constructor = c, owner = ownr, repoName = rname\<rparr>)
      else Inr \<lparr>constructor = c, owner = None, repoName = None\<rparr>)"

subsection \<open>\<^verbatim>\<open>static get _name()\<close> and \<^verbatim>\<open>get name()\<close>\<close>

fun own_name :: "source_class \<Rightarrow> (error + string) option" where
  "own_name Source = Some (Inl (InvalidSourceImplementation ''_name() must be implemented by subclasses''))"
| "own_name CoreSource = Some (Inr ''core'')"
| "own_name CoreStagingSource = Some (Inr ''staging'')"
| "own_name CommunitySource = Some (Inr ''community'')"
| "own_name InrbDrcSource = Some (Inr ''inrb-drc'')"
| "own_name SeattleFluSource = Some (Inr ''seattleflu'')"
| "own_name (Subclass n b p) = Some (Inr n)"
| "own_name _ = None"

definition static_name :: "source_class \<Rightarrow> error + string" where
  "static_name c = (case lookup own_name c of Some r \<Rightarrow> r | None \<Rightarrow> Inl (TypeError ''_name''))"

definition name :: "source \<Rightarrow> error + string" where
  "name this = static_name (constructor this)"

subsection \<open>\<^verbatim>\<open>get repo()\<close>, \<^verbatim>\<open>get branch()\<close>\<close>

fun own_repo :: "source_class \<Rightarrow> (source \<Rightarrow> string) option" where
  "own_repo CoreSource = Some (\<lambda>this. ''nextstrain/narratives'')"
| "own_repo CoreStagingSource = Some (\<lambda>this. ''nextstrain/narratives'')"
| "own_repo CommunitySource = Some (\<lambda>this. template (owner this) @ ''/'' @ template (repoName this))"
| "own_repo _ = None"

definition repo :: "source \<Rightarrow> string option" where
  "repo this = map_option (\<lambda>m. m this) (lookup own_repo (constructor this))"

fun own_branch :: "source_class \<Rightarrow> string option" where
  "own_branch CoreSource = Some ''master''"
| "own_branch CoreStagingSource = Some ''staging''"
| "own_branch CommunitySource = Some ''master''"
| "own_branch _ = None"

definition branch :: "source \<Rightarrow> string option" where
  "branch this = lookup own_branch (constructor this)"

subsection \<open>\<^verbatim>\<open>get bucket()\<close> and \<^verbatim>\<open>get baseUrl()\<close>\<close>

fun own_bucket :: "source_class \<Rightarrow> (source \<Rightarrow> error + string) option" where
  "own_bucket S3Source = Some (\<lambda>this. Inl (InvalidSourceImplementation ''bucket() must be implemented by subclasses''))"
| "own_bucket PublicGroupSource = Some (\<lambda>this. map_sum id (\<lambda>n. ''nextstrain-'' @ n) (name this))"
| "own_bucket PrivateGroupSource = Some (\<lambda>this. map_sum id (\<lambda>n. ''nextstrain-'' @ n) (name this))"
| "own_bucket InrbDrcSource = Some (\<lambda>this. Inr ''nextstrain-inrb'')"
| "own_bucket (Subclass n (Some b) p) = Some (\<lambda>this. Inr b)"
| "own_bucket _ = None"

definition bucket :: "source \<Rightarrow> error + string" where
  "bucket this =
     (case lookup own_bucket (constructor this) of
        Some m \<Rightarrow> m this
      | None \<Rightarrow> Inl (TypeError ''bucket''))"

fun own_baseUrl :: "source_class \<Rightarrow> (source \<Rightarrow> error + string) option" where
  "own_baseUrl Source = Some (\<lambda>this. Inl (InvalidSourceImplementation ''baseUrl() must be implemented by subclasses''))"
| "own_baseUrl CoreSource = Some (\<lambda>this. Inr ''http://data.nextstrain.org/'')"
| "own_baseUrl CoreStagingSource = Some (\<lambda>this. Inr ''http://staging.nextstrain.org/'')"
| "own_baseUrl CommunitySource =
     Some (\<lambda>this. Inr (''https://raw.githubusercontent.com/'' @ template (repo this) @ ''/''
                         @ template (branch this) @ ''/''))"
| "own_baseUrl S3Source =
     Some (\<lambda>this. map_sum id (\<lambda>b. ''https://'' @ b @ ''.s3.amazonaws.com'') (bucket this))"
| "own_baseUrl _ = None"

definition baseUrl :: "source \<Rightarrow> error + string" where
  "baseUrl this =
     (case lookup own_baseUrl (constructor this) of
        Some m \<Rightarrow> m this
      | None \<Rightarrow> Inl (TypeError ''baseUrl''))"


section \<open>Dataset and Narrative handles\<close>

datatype handle_class =
    Dataset
  | CommunityDataset
  | PrivateS3Dataset
  | Narrative
  | CoreNarrative
  | CommunityNarrative
  | PrivateS3Narrative

record handle =
  handle_class :: handle_class
  source :: source
  pathParts :: "string list"

text \<open>The three classes whose chain ends in \<^verbatim>\<open>Dataset\<close>; the other four end in \<^verbatim>\<open>Narrative\<close>.\<close>

fun extends_Dataset :: "handle_class \<Rightarrow> bool" where
  "extends_Dataset Dataset = True"
| "extends_Dataset CommunityDataset = True"
| "extends_Dataset PrivateS3Dataset = True"
| "extends_Dataset _ = False"

text \<open>
  \<^verbatim>\<open>get baseParts()\<close>: \<^verbatim>\<open>this.pathParts.slice()\<close> in \<^verbatim>\<open>Dataset\<close> and
  \<^verbatim>\<open>Narrative\<close>, overridden by the two community handles.
\<close>

definition baseParts :: "handle \<Rightarrow> string list" where
  "baseParts this =
     (case handle_class this of
        CommunityDataset \<Rightarrow> (''auspice/'' @ template (repoName (source this))) # pathParts this
      | CommunityNarrative \<Rightarrow> (''narratives/'' @ template (repoName (source this))) # pathParts this
      | _ \<Rightarrow> pathParts this)"

text \<open>
  \<^verbatim>\<open>new K(source, pathParts)\<close>.  The \<^verbatim>\<open>Dataset\<close> constructor reads
  \<^verbatim>\<open>this.baseParts\<close> of the object under construction, so the getter of the
  class being constructed answers; the \<^verbatim>\<open>Narrative\<close> constructor stores the
  two fields and nothing else.
\<close>

definition new_handle :: "handle_class \<Rightarrow> source \<Rightarrow> string list \<Rightarrow> error + handle" where
  "new_handle k src parts =
     (let this = \<lparr>handle_class = k, source = src, pathParts = parts\<rparr>
      in if extends_Dataset k then
           (if length (baseParts this) = 0 then Inl NoDatasetPathError else Inr this)
         else Inr this)"

text \<open>\<^verbatim>\<open>baseNameFor(type)\<close> of \<^verbatim>\<open>Dataset\<close>, \<^verbatim>\<open>get baseName()\<close> of \<^verbatim>\<open>Narrative\<close>.\<close>

definition baseNameFor :: "handle \<Rightarrow> string \<Rightarrow> string" where
  "baseNameFor this type =
     (let baseName = join ''_'' (baseParts this)
      in if type = ''main'' then baseName @ ''.json''
         else baseName @ ''_'' @ type @ ''.json'')"

definition baseName :: "handle \<Rightarrow> string" where
  "baseName this = join ''_'' (baseParts this) @ ''.md''"

text \<open>\<^verbatim>\<open>get isRequestValidWithoutDataset()\<close>: \<^verbatim>\<open>Dataset\<close>, overridden by \<^verbatim>\<open>CommunityDataset\<close>.\<close>

definition isRequestValidWithoutDataset :: "handle \<Rightarrow> bool" where
  "isRequestValidWithoutDataset this =
     (case handle_class this of
        CommunityDataset \<Rightarrow> (if length (pathParts this) = 0 then True else False)
      | _ \<Rightarrow> False)"

subsection \<open>The factory methods \<^verbatim>\<open>dataset(pathParts)\<close> and \<^verbatim>\<open>narrative(pathParts)\<close>\<close>

fun own_dataset :: "source_class \<Rightarrow> handle_class option" where
  "own_dataset Source = Some Dataset"
| "own_dataset CommunitySource = Some CommunityDataset"
| "own_dataset PrivateS3Source = Some PrivateS3Dataset"
| "own_dataset _ = None"

fun own_narrative :: "source_class \<Rightarrow> handle_class option" where
  "own_narrative Source = Some Narrative"
| "own_narrative CoreSource = Some CoreNarrative"
| "own_narrative CommunitySource = Some CommunityNarrative"
| "own_narrative PrivateS3Source = Some PrivateS3Narrative"
| "own_narrative _ = None"

definition dataset :: "source \<Rightarrow> string list \<Rightarrow> error + handle" where
  "dataset this parts =
     (case lookup own_dataset (constructor this) of
        Some k \<Rightarrow> new_handle k this parts
      | None \<Rightarrow> Inl (TypeError ''dataset''))"

definition narrative :: "source \<Rightarrow> string list \<Rightarrow> error + handle" where
  "narrative this parts =
     (case lookup own_narrative (constructor this) of
        Some k \<Rightarrow> new_handle k this parts
      | None \<Rightarrow> Inl (TypeError ''narrative''))"


section \<open>Access control\<close>

text \<open>
  The requesting user: \<^verbatim>\<open>null\<close> or absent is \<open>None\<close>; \<^verbatim>\<open>user.groups\<close> is
  an array of group names or missing.  An array, also an empty one, is truthy.
\<close>

record user =
  groups :: "string list option"

text \<open>
  \<^verbatim>\<open>static visibleToUser(user)\<close>, declared by three classes.  The receiver
  \<open>this\<close> is the class the call started from, which is what
  \<^verbatim>\<open>this._name\<close> in \<^verbatim>\<open>PrivateGroupSource\<close> reads; \<^verbatim>\<open>&&\<close> evaluates it only
  after the two tests before it held.
\<close>

fun own_visibleToUser :: "source_class \<Rightarrow> (source_class \<Rightarrow> user option \<Rightarrow> error + bool) option" where
  "own_visibleToUser Source = Some (\<lambda>this user. Inr True)"
| "own_visibleToUser PrivateS3Source =
     Some (\<lambda>this user. Inl (InvalidSourceImplementation
       ''visibleToUser() must be implemented explicitly by subclasses (not inherited from PrivateS3Source)''))"
| "own_visibleToUser PrivateGroupSource =
     Some (\<lambda>this user.
       (case user of
          None \<Rightarrow> Inr False
        | Some u \<Rightarrow>
            (case groups u of
               None \<Rightarrow> Inr False
             | Some gs \<Rightarrow> map_sum id (\<lambda>n. n \<in> set gs) (static_name this))))"
| "own_visibleToUser _ = None"

definition static_visibleToUser :: "source_class \<Rightarrow> user option \<Rightarrow> error + bool" where
  "static_visibleToUser c user =
     (case lookup own_visibleToUser c of
        Some m \<Rightarrow> m c user
      | None \<Rightarrow> Inl (TypeError ''visibleToUser''))"

text \<open>The instance method, declared by \<^verbatim>\<open>Source\<close> alone: \<^verbatim>\<open>this.constructor.visibleToUser(user)\<close>.\<close>

definition visibleToUser :: "source \<Rightarrow> user option \<Rightarrow> error + bool" where
  "visibleToUser this user = static_visibleToUser (constructor this) user"


section \<open>External collaborators\<close>

text \<open>
  What the module reaches outside itself, as parameters:
  \<^item> \<open>fetch\<close>: \<^verbatim>\<open>node-fetch\<close>; the promise rejects (\<open>Inl\<close>) or resolves to a
    response with its \<^verbatim>\<open>ok\<close> flag and the outcome of \<^verbatim>\<open>response.json()\<close>;
  \<^item> \<open>s3_objects\<close>: for a bucket name, the objects it holds in listing order,
    or the failure of the listing request;
  \<^item> \<open>getSignedUrl\<close>: \<^verbatim>\<open>S3.getSignedUrl(operation, {Bucket, Key})\<close>;
  \<^item> \<open>new_URL\<close>: \<^verbatim>\<open>new URL(relative, base).toString()\<close>;
  \<^item> \<open>global_availableDatasets\<close>: \<^verbatim>\<open>global.availableDatasets[name]\<close>.
\<close>

record gh_file =
  file_type :: string
  file_name :: string

record response =
  ok :: bool
  json :: "error + gh_file list"

record s3_object =
  Key :: string

record list_output =
  Contents :: "s3_object list"
  IsTruncated :: bool

record env =
  fetch :: "string \<Rightarrow> error + response"
  s3_objects :: "string \<Rightarrow> error + s3_object list"
  getSignedUrl :: "string \<Rightarrow> string \<Rightarrow> string \<Rightarrow> error + string"
  new_URL :: "string \<Rightarrow> string \<Rightarrow> error + string"
  global_availableDatasets :: "string \<Rightarrow> string list option"

text \<open>
  \<^verbatim>\<open>S3.listObjectsV2({Bucket: b})\<close> without a continuation token answers one
  page: the first 1000 objects, as the comment in \<^verbatim>\<open>_listObjects\<close> records,
  and whether more remain.
\<close>

definition listObjectsV2 :: "env \<Rightarrow> string \<Rightarrow> error + list_output" where
  "listObjectsV2 env b =
     (case s3_objects env b of
        Inl e \<Rightarrow> Inl e
      | Inr objects \<Rightarrow>
          Inr \<lparr>Contents = take 1000 objects, IsTruncated = (1000 < length objects)\<rparr>)"


section \<open>URLs of handles\<close>

text \<open>
  \<^verbatim>\<open>urlFor(type)\<close>: \<^verbatim>\<open>Dataset\<close>, overridden by \<^verbatim>\<open>PrivateS3Dataset\<close>.
  The narrative classes have no such method.
\<close>

definition urlFor :: "env \<Rightarrow> handle \<Rightarrow> string \<Rightarrow> error + string" where
  "urlFor env this type =
     (case handle_class this of
        PrivateS3Dataset \<Rightarrow>
          (case bucket (source this) of
             Inl e \<Rightarrow> Inl e
           | Inr b \<Rightarrow> getSignedUrl env ''getObject'' b (baseNameFor this type))
      | Dataset \<Rightarrow>
          (case baseUrl (source this) of
             Inl e \<Rightarrow> Inl e
           | Inr base \<Rightarrow> new_URL env (baseNameFor this type) base)
      | CommunityDataset \<Rightarrow>
          (case baseUrl (source this) of
             Inl e \<Rightarrow> Inl e
           | Inr base \<Rightarrow> new_URL env (baseNameFor this type) base)
      | _ \<Rightarrow> Inl (TypeError ''urlFor''))"

text \<open>
  \<^verbatim>\<open>url()\<close>: \<^verbatim>\<open>Narrative\<close>, overridden by \<^verbatim>\<open>CoreNarrative\<close> and
  \<^verbatim>\<open>PrivateS3Narrative\<close>.  The dataset classes have no such method.
\<close>

definition url :: "env \<Rightarrow> handle \<Rightarrow> error + string" where
  "url env this =
     (case handle_class this of
        PrivateS3Narrative \<Rightarrow>
          (case bucket (source this) of
             Inl e \<Rightarrow> Inl e
           | Inr b \<Rightarrow> getSignedUrl env ''getObject'' b (baseName this))
      | CoreNarrative \<Rightarrow>
          (let repoBaseUrl = ''https://raw.githubusercontent.com/'' @ template (repo (source this))
                             @ ''/'' @ template (branch (source this)) @ ''/''
           in new_URL env (baseName this) repoBaseUrl)
      | Narrative \<Rightarrow>
          (case baseUrl (source this) of
             Inl e \<Rightarrow> Inl e
           | Inr base \<Rightarrow> new_URL env (baseName this) base)
      | CommunityNarrative \<Rightarrow>
          (case baseUrl (source this) of
             Inl e \<Rightarrow> Inl e
           | Inr base \<Rightarrow> new_URL env (baseName this) base)
      | _ \<Rightarrow> Inl (TypeError ''url''))"


section \<open>Enumeration\<close>

text \<open>
  \<^verbatim>\<open>Array.from(new Set(xs))\<close>: the elements in the order of their first
  insertion, each once.
\<close>

primrec add_all :: "'a list \<Rightarrow> 'a list \<Rightarrow> 'a list" where
  "add_all seen [] = seen"
| "add_all seen (x # xs) = add_all (if x \<in> set seen then seen else seen @ [x]) xs"

definition Array_from_Set :: "'a list \<Rightarrow> 'a list" where
  "Array_from_Set xs = add_all [] xs"

text \<open>
  The GitHub contents request of a source for a sub-directory
  (\<^verbatim>\<open>""\<close>, \<^verbatim>\<open>"/auspice"\<close>, \<^verbatim>\<open>"/narratives"\<close>).
  \<^verbatim>\<open>queryString.stringify({ref: this.branch})\<close> is \<^verbatim>\<open>ref=<branch>\<close> for the
  branch names of the module, which need no escaping.
\<close>

definition contents_url :: "source \<Rightarrow> string \<Rightarrow> string" where
  "contents_url this subdir =
     (let qs = ''ref='' @ template (branch this)
      in ''https://api.github.com/repos/'' @ template (repo this) @ ''/contents'' @ subdir @ ''?'' @ qs)"

text \<open>
  The shape shared by the three GitHub-backed listings: await \<^verbatim>\<open>fetch\<close>,
  return \<^verbatim>\<open>[]\<close> when \<^verbatim>\<open>!response.ok\<close> (after \<^verbatim>\<open>utils.warn\<close>, which
  only logs), else await \<^verbatim>\<open>response.json()\<close> and run the pipeline on the
  files.  Neither await is inside a \<^verbatim>\<open>try\<close>.
\<close>

definition github_listing :: "env \<Rightarrow> string \<Rightarrow> (gh_file list \<Rightarrow> string list) \<Rightarrow> error + string list" where
  "github_listing env u pipeline =
     (case fetch env u of
        Inl e \<Rightarrow> Inl e
      | Inr response \<Rightarrow>
          if \<not> ok response then Inr []
          else (case json response of
                  Inl e \<Rightarrow> Inl e
                | Inr files \<Rightarrow> Inr (pipeline files)))"

subsection \<open>\<^verbatim>\<open>CoreSource\<close>\<close>

definition core_availableDatasets :: "env \<Rightarrow> source \<Rightarrow> error + string list" where
  "core_availableDatasets env this =
     (case name this of
        Inl e \<Rightarrow> Inl e
      | Inr n \<Rightarrow> Inr (case global_availableDatasets env n of Some ds \<Rightarrow> ds | None \<Rightarrow> []))"

definition core_narrative_paths :: "gh_file list \<Rightarrow> string list" where
  "core_narrative_paths files =
     map (\<lambda>file. join ''/'' (split CHR ''_'' (strip_suffix ''.md'' (file_name file))))
       (filter (\<lambda>file. endsWith (file_name file) ''.md'')
         (filter (\<lambda>file. file_name file \<noteq> ''README.md'')
           (filter (\<lambda>file. file_type file = ''file'') files)))"

definition core_availableNarratives :: "env \<Rightarrow> source \<Rightarrow> error + string list" where
  "core_availableNarratives env this =
     github_listing env (contents_url this []) core_narrative_paths"

subsection \<open>\<^verbatim>\<open>CommunitySource\<close>\<close>

text \<open>The local constants of \<^verbatim>\<open>availableDatasets\<close>, for repo name \<open>rn\<close>.\<close>

definition jsonFiles :: "string \<Rightarrow> gh_file list \<Rightarrow> string list" where
  "jsonFiles rn files =
     map file_name
       (filter (\<lambda>file. startsWith (file_name file) rn)
         (filter (\<lambda>file. endsWith (file_name file) ''.json'')
           (filter (\<lambda>file. file_type file = ''file'') files)))"

definition sidecarSuffixes :: "string list" where
  "sidecarSuffixes = [''meta'', ''tree'', ''root-sequence'', ''seq'', ''tip-frequencies'']"

definition notSidecar :: "string \<Rightarrow> bool" where
  "notSidecar filename =
     (\<not> list_ex (\<lambda>suffix. endsWith filename (''_'' @ suffix @ ''.json'')) sidecarSuffixes)"

definition v2 :: "string \<Rightarrow> gh_file list \<Rightarrow> string list" where
  "v2 rn files = map (strip_suffix ''.json'') (filter notSidecar (jsonFiles rn files))"

definition v1 :: "string \<Rightarrow> gh_file list \<Rightarrow> string list" where
  "v1 rn files =
     map (strip_suffix ''_meta.json'')
       (filter (\<lambda>filename. replace_suffix ''_meta.json'' ''_tree.json'' filename
                              \<in> set (jsonFiles rn files))
         (filter (\<lambda>filename. endsWith filename ''_meta.json'') (jsonFiles rn files)))"

definition dataset_path :: "string \<Rightarrow> string \<Rightarrow> string" where
  "dataset_path rn filename =
     join ''/'' (split CHR ''_'' (strip_leading_underscore (remove_first rn filename)))"

definition community_dataset_paths :: "string \<Rightarrow> gh_file list \<Rightarrow> string list" where
  "community_dataset_paths rn files =
     map (dataset_path rn) (Array_from_Set (v2 rn files @ v1 rn files))"

definition community_availableDatasets :: "env \<Rightarrow> source \<Rightarrow> error + string list" where
  "community_availableDatasets env this =
     github_listing env (contents_url this ''/auspice'')
       (community_dataset_paths (template (repoName this)))"

definition community_narrative_paths :: "string \<Rightarrow> gh_file list \<Rightarrow> string list" where
  "community_narrative_paths rn files =
     map (\<lambda>file. join ''/'' (split CHR ''_''
            (strip_suffix ''.md'' (strip_leading_underscore (remove_first rn (file_name file))))))
       (filter (\<lambda>file. startsWith (file_name file) rn)
         (filter (\<lambda>file. endsWith (file_name file) ''.md'')
           (filter (\<lambda>file. file_name file \<noteq> ''README.md'')
             (filter (\<lambda>file. file_type file = ''file'') files))))"

definition community_availableNarratives :: "env \<Rightarrow> source \<Rightarrow> error + string list" where
  "community_availableNarratives env this =
     github_listing env (contents_url this ''/narratives'')
       (community_narrative_paths (template (repoName this)))"

subsection \<open>\<^verbatim>\<open>S3Source\<close>\<close>

text \<open>\<^verbatim>\<open>_listObjects()\<close>: one \<^verbatim>\<open>listObjectsV2\<close> call, and its \<^verbatim>\<open>Contents\<close>.\<close>

definition listObjects :: "env \<Rightarrow> source \<Rightarrow> error + s3_object list" where
  "listObjects env this =
     (case bucket this of
        Inl e \<Rightarrow> Inl e
      | Inr b \<Rightarrow>
          (case listObjectsV2 env b of
             Inl e \<Rightarrow> Inl e
           | Inr list \<Rightarrow> Inr (Contents list)))"

definition s3_dataset_paths :: "s3_object list \<Rightarrow> string list" where
  "s3_dataset_paths objects =
     map (\<lambda>file. join ''/'' (split CHR ''_'' (strip_suffix ''_tree.json'' file)))
       (filter (\<lambda>file. endsWith file ''_tree.json'') (map Key objects))"

definition s3_narrative_paths :: "s3_object list \<Rightarrow> string list" where
  "s3_narrative_paths objects =
     map (\<lambda>file. join ''/'' (split CHR ''_'' (strip_suffix ''.md'' file)))
       (filter (\<lambda>file. endsWith file ''.md'') (map Key objects))"

definition s3_availableDatasets :: "env \<Rightarrow> source \<Rightarrow> error + string list" where
  "s3_availableDatasets env this =
     (case listObjects env this of
        Inl e \<Rightarrow> Inl e
      | Inr objects \<Rightarrow> Inr (s3_dataset_paths objects))"

definition s3_availableNarratives :: "env \<Rightarrow> source \<Rightarrow> error + string list" where
  "s3_availableNarratives env this =
     (case listObjects env this of
        Inl e \<Rightarrow> Inl e
      | Inr objects \<Rightarrow> Inr (s3_narrative_paths objects))"

subsection \<open>Dispatch of \<^verbatim>\<open>availableDatasets()\<close> and \<^verbatim>\<open>availableNarratives()\<close>\<close>

fun own_availableDatasets :: "source_class \<Rightarrow> (env \<Rightarrow> source \<Rightarrow> error + string list) option" where
  "own_availableDatasets Source = Some (\<lambda>env this. Inr [])"
| "own_availableDatasets CoreSource = Some core_availableDatasets"
| "own_availableDatasets CommunitySource = Some community_availableDatasets"
| "own_availableDatasets S3Source = Some s3_availableDatasets"
| "own_availableDatasets _ = None"

fun own_availableNarratives :: "source_class \<Rightarrow> (env \<Rightarrow> source \<Rightarrow> error + string list) option" where
  "own_availableNarratives Source = Some (\<lambda>env this. Inr [])"
| "own_availableNarratives CoreSource = Some core_availableNarratives"
| "own_availableNarratives CommunitySource = Some community_availableNarratives"
| "own_availableNarratives S3Source = Some s3_availableNarratives"
| "own_availableNarratives _ = None"

definition availableDatasets :: "env \<Rightarrow> source \<Rightarrow> error + string list" where
  "availableDatasets env this =
     (case lookup own_availableDatasets (constructor this) of
        Some m \<Rightarrow> m env this
      | None \<Rightarrow> Inl (TypeError ''availableDatasets''))"

definition availableNarratives :: "env \<Rightarrow> source \<Rightarrow> error + string list" where
  "availableNarratives env this =
     (case lookup own_availableNarratives (constructor this) of
        Some m \<Rightarrow> m env this
      | None \<Rightarrow> Inl (TypeError ''availableNarratives''))"


section \<open>Sample collaborators\<close>

text \<open>
  Concrete stand-ins for the external calls, used where a statement is
  evaluated on an input: a signer that appends a signature query to the
  object's address, a resolver that appends the relative name to the base,
  and listings given as arguments.
\<close>

definition sample_env :: "(string \<Rightarrow> error + response) \<Rightarrow> (string \<Rightarrow> error + s3_object list) \<Rightarrow> env" where
  "sample_env f s =
     \<lparr>fetch = f,
      s3_objects = s,
      getSignedUrl = (\<lambda>operation b k. Inr (''https://'' @ b @ ''.s3.amazonaws.com/'' @ k @ ''?Signature=s'')),
      new_URL = (\<lambda>relative base. Inr (base @ ''/'' @ relative)),
      global_availableDatasets = (\<lambda>n. None)\<rparr>"

definition offline :: "string \<Rightarrow> error + 'a" where
  "offline x = Inl (Rejected ''network'')"


definition refusing :: "string \<Rightarrow> error + response" where
  "refusing u = Inr \<lparr>ok = False, json = Inl (Rejected ''body'')\<rparr>"



text \<open>A bucket of 1001 objects with distinct keys in listing order, the last one a dataset.\<close>

definition big_bucket :: "s3_object list" where
  "big_bucket = map (\<lambda>n. \<lparr>Key = replicate n CHR ''a''\<rparr>) [1..<1001] @ [\<lparr>Key = ''zika_tree.json''\<rparr>]"

definition core :: source where
  "core = \<lparr>constructor = CoreSource, owner = None, repoName = None\<rparr>"

definition inrb :: source where
  "inrb = \<lparr>constructor = InrbDrcSource, owner = None, repoName = None\<rparr>"

definition seattleflu :: source where
  "seattleflu = \<lparr>constructor = SeattleFluSource, owner = None, repoName = None\<rparr>"

definition blab_ncov :: source where
  "blab_ncov = \<lparr>constructor = CommunitySource, owner = Some ''blab'', repoName = Some ''ncov''\<rparr>"


section \<open>Method resolution\<close>

text \<open>Which declaration a call reaches, for any class including further subclasses.\<close>

lemma lookup_own_dataset:
  "lookup own_dataset c =
     Some (if CommunitySource \<in> set (ancestors c) then CommunityDataset
           else if PrivateS3Source \<in> set (ancestors c) then PrivateS3Dataset
           else Dataset)"
  by (induction c) (simp_all add: lookup_def)

lemma lookup_own_narrative:
  "lookup own_narrative c =
     Some (if CommunitySource \<in> set (ancestors c) then CommunityNarrative
           else if PrivateS3Source \<in> set (ancestors c) then PrivateS3Narrative
           else if CoreSource \<in> set (ancestors c) then CoreNarrative
           else Narrative)"
  by (induction c) (simp_all add: lookup_def)

lemma lookup_own_visibleToUser:
  "lookup own_visibleToUser c =
     own_visibleToUser (if PrivateGroupSource \<in> set (ancestors c) then PrivateGroupSource
           else if PrivateS3Source \<in> set (ancestors c) then PrivateS3Source
           else Source)"
  by (induction c) (simp_all add: lookup_def)

lemma private_group_is_private_s3:
  "PrivateGroupSource \<in> set (ancestors c) \<Longrightarrow> PrivateS3Source \<in> set (ancestors c)"
  by (induction c) simp_all

lemma private_s3_not_community:
  "PrivateS3Source \<in> set (ancestors c) \<Longrightarrow> CommunitySource \<notin> set (ancestors c)"
  by (induction c) simp_all

lemma lookup_own_availableDatasets:
  "lookup own_availableDatasets c =
     Some (if CommunitySource \<in> set (ancestors c) then community_availableDatasets
           else if S3Source \<in> set (ancestors c) then s3_availableDatasets
           else if CoreSource \<in> set (ancestors c) then core_availableDatasets
           else (\<lambda>env this. Inr []))"
  by (induction c) (simp_all add: lookup_def)

lemma lookup_own_availableNarratives:
  "lookup own_availableNarratives c =
     Some (if CommunitySource \<in> set (ancestors c) then community_availableNarratives
           else if S3Source \<in> set (ancestors c) then s3_availableNarratives
           else if CoreSource \<in> set (ancestors c) then core_availableNarratives
           else (\<lambda>env this. Inr []))"
  by (induction c) (simp_all add: lookup_def)

lemma core_not_community:
  "CoreSource \<in> set (ancestors c) \<Longrightarrow> CommunitySource \<notin> set (ancestors c) \<and> S3Source \<notin> set (ancestors c)"
  by (induction c) simp_all

lemma s3_not_community:
  "S3Source \<in> set (ancestors c) \<Longrightarrow> CommunitySource \<notin> set (ancestors c)"
  by (induction c) simp_all

lemma made_dataset_inrb:
  "dataset inrb [''ebola''] = Inr \<lparr>handle_class = PrivateS3Dataset, source = inrb, pathParts = [''ebola'']\<rparr>"
  by (simp add: dataset_def lookup_def new_handle_def baseParts_def inrb_def)

lemma made_narrative_inrb:
  "narrative inrb [''ebola'', ''sitrep''] =
     Inr \<lparr>handle_class = PrivateS3Narrative, source = inrb, pathParts = [''ebola'', ''sitrep'']\<rparr>"
  by (simp add: narrative_def lookup_def new_handle_def inrb_def)

lemma made_dataset_seattleflu:
  "dataset seattleflu [''flu'', ''seasonal'', ''h3n2''] =
     Inr \<lparr>handle_class = Dataset, source = seattleflu, pathParts = [''flu'', ''seasonal'', ''h3n2'']\<rparr>"
  by (simp add: dataset_def lookup_def new_handle_def baseParts_def seattleflu_def)


section \<open>Handles\<close>

text \<open>
  Claim C2, as amended.  The \<^verbatim>\<open>Dataset\<close> constructor is the only one that
  inspects the base parts: constructing a handle of a class that extends
  \<^verbatim>\<open>Dataset\<close> fails with the no-dataset-path error exactly when the base
  parts computed by that class are empty, and succeeds otherwise; the factory
  \<^verbatim>\<open>dataset\<close> of every source constructs such a class.  Constructing a
  narrative handle makes no check: the factory \<^verbatim>\<open>narrative\<close> of every source
  succeeds on every path-segment sequence.
\<close>

theorem handle_construction:
  "new_handle k src ps =
     (if extends_Dataset k \<and> baseParts \<lparr>handle_class = k, source = src, pathParts = ps\<rparr> = []
      then Inl NoDatasetPathError
      else Inr \<lparr>handle_class = k, source = src, pathParts = ps\<rparr>)
   \<and> (\<exists>k'. extends_Dataset k' \<and> dataset src ps = new_handle k' src ps)
   \<and> (\<exists>k'. \<not> extends_Dataset k'
          \<and> narrative src ps = Inr \<lparr>handle_class = k', source = src, pathParts = ps\<rparr>)"
proof -
  have made: "new_handle k src ps =
     (if extends_Dataset k \<and> baseParts \<lparr>handle_class = k, source = src, pathParts = ps\<rparr> = []
      then Inl NoDatasetPathError
      else Inr \<lparr>handle_class = k, source = src, pathParts = ps\<rparr>)"
    by (simp add: new_handle_def Let_def)
  obtain kd where kd: "lookup own_dataset (constructor src) = Some kd" "extends_Dataset kd"
    by (simp add: lookup_own_dataset)
  then have ds: "\<exists>k'. extends_Dataset k' \<and> dataset src ps = new_handle k' src ps"
    by (auto simp: dataset_def)
  obtain kn where kn: "lookup own_narrative (constructor src) = Some kn" "\<not> extends_Dataset kn"
    by (simp add: lookup_own_narrative)
  then have "narrative src ps = Inr \<lparr>handle_class = kn, source = src, pathParts = ps\<rparr>"
    by (simp add: narrative_def new_handle_def)
  with kn(2) have ns: "\<exists>k'. \<not> extends_Dataset k'
          \<and> narrative src ps = Inr \<lparr>handle_class = k', source = src, pathParts = ps\<rparr>"
    by blast
  from made ds ns show ?thesis by blast
qed

text \<open>
  Claim C2 as stated fails on narratives: the public group source
  \<^verbatim>\<open>seattleflu\<close> constructs a narrative handle from no path segments, and
  the base parts of that handle are empty.
\<close>

theorem narrative_without_base_parts:
  "narrative seattleflu [] = Inr \<lparr>handle_class = Narrative, source = seattleflu, pathParts = []\<rparr>
   \<and> baseParts \<lparr>handle_class = Narrative, source = seattleflu, pathParts = []\<rparr> = []"
  by (simp add: narrative_def lookup_def new_handle_def baseParts_def seattleflu_def)

text \<open>
  Claim C8.  For a dataset handle made by a source, the base name of the
  variant \<^verbatim>\<open>main\<close> is the base parts joined by underscores followed by
  \<^verbatim>\<open>.json\<close>, and that of any other variant \<open>v\<close> is the joined base parts
  followed by \<^verbatim>\<open>_v.json\<close>; on base parts \<^verbatim>\<open>flu, seasonal, h3n2\<close> the
  variants \<^verbatim>\<open>main\<close> and \<^verbatim>\<open>meta\<close> give \<^verbatim>\<open>flu_seasonal_h3n2.json\<close> and
  \<^verbatim>\<open>flu_seasonal_h3n2_meta.json\<close>.
\<close>

theorem baseNameFor_variants:
  assumes "dataset src parts = Inr d"
  shows "baseNameFor d ''main'' = join ''_'' (baseParts d) @ ''.json''
       \<and> (v \<noteq> ''main'' \<longrightarrow> baseNameFor d v = join ''_'' (baseParts d) @ ''_'' @ v @ ''.json'')
       \<and> (baseParts d = [''flu'', ''seasonal'', ''h3n2''] \<longrightarrow>
            baseNameFor d ''main'' = ''flu_seasonal_h3n2.json''
          \<and> baseNameFor d ''meta'' = ''flu_seasonal_h3n2_meta.json'')"
  by (simp add: baseNameFor_def)

theorem baseNameFor_variants_witness:
  "dataset seattleflu [''flu'', ''seasonal'', ''h3n2'']
     = Inr \<lparr>handle_class = Dataset, source = seattleflu, pathParts = [''flu'', ''seasonal'', ''h3n2'']\<rparr>
   \<and> ''root-sequence'' \<noteq> ''main''
   \<and> baseParts \<lparr>handle_class = Dataset, source = seattleflu, pathParts = [''flu'', ''seasonal'', ''h3n2'']\<rparr>
       = [''flu'', ''seasonal'', ''h3n2'']
   \<and> baseNameFor \<lparr>handle_class = Dataset, source = seattleflu, pathParts = [''flu'', ''seasonal'', ''h3n2'']\<rparr>
       ''root-sequence'' = ''flu_seasonal_h3n2_root-sequence.json''
   \<and> baseNameFor \<lparr>handle_class = Dataset, source = seattleflu, pathParts = [''flu'', ''seasonal'', ''h3n2'']\<rparr>
       ''main'' = ''flu_seasonal_h3n2.json''
   \<and> baseNameFor \<lparr>handle_class = Dataset, source = seattleflu, pathParts = [''flu'', ''seasonal'', ''h3n2'']\<rparr>
       ''meta'' = ''flu_seasonal_h3n2_meta.json''"
proof -
  let ?d = "\<lparr>handle_class = Dataset, source = seattleflu, pathParts = [''flu'', ''seasonal'', ''h3n2'']\<rparr>"
  have parts: "baseParts ?d = [''flu'', ''seasonal'', ''h3n2'']"
    by (simp add: baseParts_def)
  from baseNameFor_variants [OF made_dataset_seattleflu, of "''root-sequence''"]
       made_dataset_seattleflu parts
  show ?thesis by simp
qed

text \<open>
  Claim C9.  A Community source with repo name \<open>r\<close> makes, from any path
  segments \<open>ps\<close>, a dataset handle whose base parts are \<^verbatim>\<open>auspice/r\<close>
  followed by \<open>ps\<close>.
\<close>

theorem community_baseParts:
  assumes "CommunitySource \<in> set (ancestors c)"
      and "new_source c ownr (Some r) = Inr src"
  shows "\<exists>d. dataset src ps = Inr d \<and> baseParts d = (''auspice/'' @ r) # ps"
proof -
  from assms have src: "constructor src = c" "repoName src = Some r"
    by (auto simp: new_source_def split: if_splits)
  let ?d = "\<lparr>handle_class = CommunityDataset, source = src, pathParts = ps\<rparr>"
  have parts: "baseParts ?d = (''auspice/'' @ r) # ps"
    by (simp add: baseParts_def src)
  have "dataset src ps = Inr ?d"
    using assms(1) by (simp add: dataset_def lookup_own_dataset src new_handle_def parts)
  with parts show ?thesis by blast
qed

theorem community_baseParts_witness:
  "CommunitySource \<in> set (ancestors CommunitySource)
   \<and> new_source CommunitySource (Some ''blab'') (Some ''ncov'') = Inr blab_ncov
   \<and> (\<exists>d. dataset blab_ncov [''global''] = Inr d \<and> baseParts d = [''auspice/ncov'', ''global''])"
proof -
  have c: "CommunitySource \<in> set (ancestors CommunitySource)" by simp
  have n: "new_source CommunitySource (Some ''blab'') (Some ''ncov'') = Inr blab_ncov"
    by (simp add: new_source_def falsy_def blab_ncov_def)
  from community_baseParts [OF c n, of "[''global'']"] c n show ?thesis by simp
qed

text \<open>
  Claim C10.  On a dataset handle made by a source,
  \<^verbatim>\<open>isRequestValidWithoutDataset\<close> is true exactly when the source is a
  Community source and the handle was made from zero path segments; on every
  other dataset handle it is false.
\<close>

theorem isRequestValidWithoutDataset_iff:
  assumes "dataset src ps = Inr d"
  shows "isRequestValidWithoutDataset d
           = (CommunitySource \<in> set (ancestors (constructor src)) \<and> ps = [])"
  using assms
  by (auto simp: dataset_def lookup_own_dataset new_handle_def isRequestValidWithoutDataset_def
                 baseParts_def Let_def split: if_splits)

theorem isRequestValidWithoutDataset_iff_witness:
  "dataset blab_ncov [] = Inr \<lparr>handle_class = CommunityDataset, source = blab_ncov, pathParts = []\<rparr>
   \<and> isRequestValidWithoutDataset \<lparr>handle_class = CommunityDataset, source = blab_ncov, pathParts = []\<rparr>
   \<and> dataset inrb [''ebola''] = Inr \<lparr>handle_class = PrivateS3Dataset, source = inrb, pathParts = [''ebola'']\<rparr>
   \<and> \<not> isRequestValidWithoutDataset \<lparr>handle_class = PrivateS3Dataset, source = inrb, pathParts = [''ebola'']\<rparr>"
proof -
  have m: "dataset blab_ncov [] = Inr \<lparr>handle_class = CommunityDataset, source = blab_ncov, pathParts = []\<rparr>"
    by (simp add: dataset_def lookup_def new_handle_def baseParts_def blab_ncov_def)
  from isRequestValidWithoutDataset_iff [OF m] isRequestValidWithoutDataset_iff [OF made_dataset_inrb]
       m made_dataset_inrb
  show ?thesis by (simp add: blab_ncov_def inrb_def)
qed


section \<open>Access control\<close>

text \<open>
  Claim C3.  For a source of a class that has \<^verbatim>\<open>PrivateGroupSource\<close> in
  its chain and whose name is \<open>n\<close>, \<^verbatim>\<open>visibleToUser(user)\<close> returns true
  exactly when the user is present, has a group list, and that list contains
  \<open>n\<close>; it returns false for an absent user and for a user without a group
  list.
\<close>

theorem private_group_visibleToUser:
  assumes "PrivateGroupSource \<in> set (ancestors (constructor src))"
      and "name src = Inr n"
  shows "visibleToUser src user
           = Inr (\<exists>u gs. user = Some u \<and> groups u = Some gs \<and> n \<in> set gs)
       \<and> visibleToUser src None = Inr False
       \<and> visibleToUser src (Some \<lparr>groups = None\<rparr>) = Inr False"
  using assms
  by (simp add: visibleToUser_def static_visibleToUser_def lookup_own_visibleToUser name_def
           split: option.splits)

theorem private_group_visibleToUser_witness:
  "PrivateGroupSource \<in> set (ancestors (constructor inrb))
   \<and> name inrb = Inr ''inrb-drc''
   \<and> visibleToUser inrb (Some \<lparr>groups = Some [''blab'', ''inrb-drc'']\<rparr>) = Inr True
   \<and> visibleToUser inrb (Some \<lparr>groups = Some [''blab'']\<rparr>) = Inr False
   \<and> visibleToUser inrb (Some \<lparr>groups = Some []\<rparr>) = Inr False
   \<and> visibleToUser inrb None = Inr False"
proof -
  have c: "PrivateGroupSource \<in> set (ancestors (constructor inrb))"
    by (simp add: inrb_def)
  have n: "name inrb = Inr ''inrb-drc''"
    by (simp add: name_def static_name_def lookup_def inrb_def)
  from private_group_visibleToUser [OF c n, of "Some \<lparr>groups = Some [''blab'', ''inrb-drc'']\<rparr>"]
       private_group_visibleToUser [OF c n, of "Some \<lparr>groups = Some [''blab'']\<rparr>"]
       private_group_visibleToUser [OF c n, of "Some \<lparr>groups = Some []\<rparr>"] c n
  show ?thesis by simp
qed

text \<open>
  Claim C4.  For a source of a class that has \<^verbatim>\<open>PrivateS3Source\<close> in its
  chain and no class between itself and \<^verbatim>\<open>PrivateS3Source\<close> that declares
  \<^verbatim>\<open>visibleToUser\<close> (the only such declaration below
  \<^verbatim>\<open>PrivateS3Source\<close> is that of \<^verbatim>\<open>PrivateGroupSource\<close>), every call of
  \<^verbatim>\<open>visibleToUser\<close> fails with the invalid-source-implementation error and
  does not answer true.
\<close>

theorem inherited_visibleToUser_fails:
  assumes "PrivateS3Source \<in> set (ancestors (constructor src))"
      and "PrivateGroupSource \<notin> set (ancestors (constructor src))"
  shows "visibleToUser src user = Inl (InvalidSourceImplementation
           ''visibleToUser() must be implemented explicitly by subclasses (not inherited from PrivateS3Source)'')
       \<and> visibleToUser src user \<noteq> Inr True"
  using assms
  by (simp add: visibleToUser_def static_visibleToUser_def lookup_own_visibleToUser)

theorem inherited_visibleToUser_fails_witness:
  "PrivateS3Source \<in> set (ancestors (constructor
       \<lparr>constructor = Subclass ''blab'' (Some ''nextstrain-blab'') PrivateS3Source, owner = None, repoName = None\<rparr>))
   \<and> PrivateGroupSource \<notin> set (ancestors (constructor
       \<lparr>constructor = Subclass ''blab'' (Some ''nextstrain-blab'') PrivateS3Source, owner = None, repoName = None\<rparr>))
   \<and> visibleToUser
       \<lparr>constructor = Subclass ''blab'' (Some ''nextstrain-blab'') PrivateS3Source, owner = None, repoName = None\<rparr>
       (Some \<lparr>groups = Some [''blab'']\<rparr>)
       = Inl (InvalidSourceImplementation
           ''visibleToUser() must be implemented explicitly by subclasses (not inherited from PrivateS3Source)'')"
proof -
  let ?src = "\<lparr>constructor = Subclass ''blab'' (Some ''nextstrain-blab'') PrivateS3Source,
               owner = None, repoName = None\<rparr>"
  have a: "PrivateS3Source \<in> set (ancestors (constructor ?src))" by simp
  have b: "PrivateGroupSource \<notin> set (ancestors (constructor ?src))" by simp
  from inherited_visibleToUser_fails [OF a b, of "Some \<lparr>groups = Some [''blab'']\<rparr>"] a b
  show ?thesis by simp
qed


section \<open>Signed URLs\<close>

text \<open>
  Claim C5.  For a source of a class that has \<^verbatim>\<open>PrivateGroupSource\<close> in
  its chain and whose bucket is \<open>b\<close>, the dataset handle it makes answers
  \<^verbatim>\<open>urlFor(type)\<close> with the outcome of
  \<^verbatim>\<open>getSignedUrl("getObject", {Bucket: b, Key: baseNameFor(type)})\<close>, and the
  narrative handle it makes answers \<^verbatim>\<open>url()\<close> with the outcome of the same
  call on its base name; the base parts are the path segments.  Neither
  result depends on the URL resolver that the unsigned handles use, and
  neither equals a given value (such as the unsigned URL) unless the signer
  itself returns that value.
\<close>

theorem private_group_urls_are_signed:
  assumes "PrivateGroupSource \<in> set (ancestors (constructor src))"
      and "bucket src = Inr b"
      and "dataset src ps = Inr d"
      and "narrative src qs = Inr n"
  shows "urlFor env d type = getSignedUrl env ''getObject'' b (baseNameFor d type)
       \<and> url env n = getSignedUrl env ''getObject'' b (baseName n)
       \<and> baseParts d = ps \<and> baseParts n = qs
       \<and> urlFor (env\<lparr>new_URL := r\<rparr>) d type = urlFor env d type
       \<and> url (env\<lparr>new_URL := r\<rparr>) n = url env n
       \<and> (getSignedUrl env ''getObject'' b (baseNameFor d type) \<noteq> direct \<longrightarrow> urlFor env d type \<noteq> direct)
       \<and> (getSignedUrl env ''getObject'' b (baseName n) \<noteq> direct' \<longrightarrow> url env n \<noteq> direct')"
proof -
  from assms(1) have s3: "PrivateS3Source \<in> set (ancestors (constructor src))"
    by (rule private_group_is_private_s3)
  then have nc: "CommunitySource \<notin> set (ancestors (constructor src))"
    by (rule private_s3_not_community)
  from assms(3) s3 nc have d: "d = \<lparr>handle_class = PrivateS3Dataset, source = src, pathParts = ps\<rparr>"
    by (auto simp: dataset_def lookup_own_dataset new_handle_def Let_def split: if_splits)
  from assms(4) s3 nc have n: "n = \<lparr>handle_class = PrivateS3Narrative, source = src, pathParts = qs\<rparr>"
    by (auto simp: narrative_def lookup_own_narrative new_handle_def Let_def split: if_splits)
  show ?thesis
    by (simp add: d n urlFor_def url_def assms(2) baseParts_def)
qed

theorem private_group_urls_are_signed_witness:
  "PrivateGroupSource \<in> set (ancestors (constructor inrb))
   \<and> bucket inrb = Inr ''nextstrain-inrb''
   \<and> dataset inrb [''ebola''] = Inr \<lparr>handle_class = PrivateS3Dataset, source = inrb, pathParts = [''ebola'']\<rparr>
   \<and> narrative inrb [''ebola'', ''sitrep'']
       = Inr \<lparr>handle_class = PrivateS3Narrative, source = inrb, pathParts = [''ebola'', ''sitrep'']\<rparr>
   \<and> urlFor (sample_env offline offline)
        \<lparr>handle_class = PrivateS3Dataset, source = inrb, pathParts = [''ebola'']\<rparr> ''meta''
       = Inr ''https://nextstrain-inrb.s3.amazonaws.com/ebola_meta.json?Signature=s''
   \<and> url (sample_env offline offline)
        \<lparr>handle_class = PrivateS3Narrative, source = inrb, pathParts = [''ebola'', ''sitrep'']\<rparr>
       = Inr ''https://nextstrain-inrb.s3.amazonaws.com/ebola_sitrep.md?Signature=s''
   \<and> urlFor (sample_env offline offline)
        \<lparr>handle_class = PrivateS3Dataset, source = inrb, pathParts = [''ebola'']\<rparr> ''meta''
       \<noteq> Inr ''https://nextstrain-inrb.s3.amazonaws.com/ebola_meta.json''
   \<and> url (sample_env offline offline)
        \<lparr>handle_class = PrivateS3Narrative, source = inrb, pathParts = [''ebola'', ''sitrep'']\<rparr>
       \<noteq> Inr ''https://nextstrain-inrb.s3.amazonaws.com/ebola_sitrep.md''"
proof -
  let ?d = "\<lparr>handle_class = PrivateS3Dataset, source = inrb, pathParts = [''ebola'']\<rparr>"
  let ?n = "\<lparr>handle_class = PrivateS3Narrative, source = inrb, pathParts = [''ebola'', ''sitrep'']\<rparr>"
  have c: "PrivateGroupSource \<in> set (ancestors (constructor inrb))"
    by (simp add: inrb_def)
  have b: "bucket inrb = Inr ''nextstrain-inrb''"
    by (simp add: bucket_def lookup_def inrb_def)
  have sd: "getSignedUrl (sample_env offline offline) ''getObject'' ''nextstrain-inrb'' (baseNameFor ?d ''meta'')
              = Inr ''https://nextstrain-inrb.s3.amazonaws.com/ebola_meta.json?Signature=s''"
    by (simp add: sample_env_def baseNameFor_def baseParts_def)
  have sn: "getSignedUrl (sample_env offline offline) ''getObject'' ''nextstrain-inrb'' (baseName ?n)
              = Inr ''https://nextstrain-inrb.s3.amazonaws.com/ebola_sitrep.md?Signature=s''"
    by (simp add: sample_env_def baseName_def baseParts_def)
  from private_group_urls_are_signed [OF c b made_dataset_inrb made_narrative_inrb,
         of "sample_env offline offline" "''meta''" _
            "Inr ''https://nextstrain-inrb.s3.amazonaws.com/ebola_meta.json''"
            "Inr ''https://nextstrain-inrb.s3.amazonaws.com/ebola_sitrep.md''"]
       c b made_dataset_inrb made_narrative_inrb
  show ?thesis by (simp add: sd sn)
qed


section \<open>Enumeration\<close>

subsection \<open>Strings and de-duplication\<close>











subsection \<open>Community datasets\<close>















subsection \<open>Object-storage listing\<close>

lemma not_tree_json: "\<not> endsWith (replicate n CHR ''a'') ''_tree.json''"
proof
  assume "endsWith (replicate n CHR ''a'') ''_tree.json''"
  then obtain k where eq: "drop k (replicate n CHR ''a'') = ''_tree.json''"
    unfolding endsWith_def by blast
  have "CHR ''_'' \<in> set (drop k (replicate n CHR ''a''))"
    unfolding eq by simp
  then have "CHR ''_'' \<in> set (replicate n CHR ''a'')"
    by (rule in_set_dropD)
  then show False by simp
qed

lemma first_page_big_bucket:
  "take 1000 big_bucket = map (\<lambda>n. \<lparr>Key = replicate n CHR ''a''\<rparr>) [1..<1001]"
  by (simp add: big_bucket_def)

lemma no_tree_on_first_page:
  "s3_dataset_paths (map (\<lambda>n. \<lparr>Key = replicate n CHR ''a''\<rparr>) [1..<1001]) = []"
  by (simp add: s3_dataset_paths_def filter_map comp_def not_tree_json)

lemma zika_path: "s3_dataset_paths [\<lparr>Key = ''zika_tree.json''\<rparr>] = [''zika'']"
  by (simp add: s3_dataset_paths_def endsWith_def strip_suffix_def replace_suffix_def)

lemma s3_dataset_paths_append:
  "s3_dataset_paths (xs @ ys) = s3_dataset_paths xs @ s3_dataset_paths ys"
  by (simp add: s3_dataset_paths_def)

text \<open>
  Claim C1 fails on the code.  \<^verbatim>\<open>_listObjects\<close> makes one
  \<^verbatim>\<open>listObjectsV2\<close> call and returns its \<^verbatim>\<open>Contents\<close>, so a listing is
  computed over the first page only, as the comment in the method says.  On a
  bucket of 1001 objects with distinct keys whose last key is
  \<^verbatim>\<open>zika_tree.json\<close>, the complete key set holds the dataset \<^verbatim>\<open>zika\<close>
  and \<^verbatim>\<open>availableDatasets()\<close> of the public group source returns no
  dataset.
\<close>

theorem listing_stops_after_first_page:
  "length big_bucket = 1001
   \<and> distinct (map Key big_bucket)
   \<and> s3_dataset_paths big_bucket = [''zika'']
   \<and> availableDatasets (sample_env offline (\<lambda>b. Inr big_bucket)) seattleflu = Inr []"
proof -
  have len: "length big_bucket = 1001"
    by (simp add: big_bucket_def)
  have "inj_on (\<lambda>n. replicate n CHR ''a'') (set [1..<1001])"
    by (rule inj_onI) (metis length_replicate)
  moreover have "''zika_tree.json'' \<notin> set (map (\<lambda>n. replicate n CHR ''a'') [1..<1001])"
  proof
    assume "''zika_tree.json'' \<in> set (map (\<lambda>n. replicate n CHR ''a'') [1..<1001])"
    then obtain n where "''zika_tree.json'' = replicate n CHR ''a''" by auto
    then have "CHR ''z'' \<in> set (replicate n CHR ''a'')" by (metis list.set_intros(1))
    then show False by simp
  qed
  ultimately have dist: "distinct (map Key big_bucket)"
    by (simp add: big_bucket_def comp_def distinct_map)
  have all: "s3_dataset_paths big_bucket = [''zika'']"
    unfolding big_bucket_def s3_dataset_paths_append
    by (simp only: no_tree_on_first_page zika_path append_Nil)
  have b: "bucket seattleflu = Inr ''nextstrain-seattleflu''"
    by (simp add: bucket_def lookup_def seattleflu_def name_def static_name_def)
  have "availableDatasets (sample_env offline (\<lambda>b. Inr big_bucket)) seattleflu
          = Inr (s3_dataset_paths (take 1000 big_bucket))"
    by (simp add: availableDatasets_def lookup_def seattleflu_def [THEN arg_cong [of _ _ constructor]]
                  s3_availableDatasets_def listObjects_def b listObjectsV2_def sample_env_def)
  then have page: "availableDatasets (sample_env offline (\<lambda>b. Inr big_bucket)) seattleflu = Inr []"
    by (simp only: first_page_big_bucket no_tree_on_first_page)
  from len dist all page show ?thesis by simp
qed


subsection \<open>Failed upstream calls\<close>

lemma github_listing_not_ok:
  "fetch env u = Inr resp \<Longrightarrow> \<not> ok resp \<Longrightarrow> github_listing env u pipeline = Inr []"
  by (simp add: github_listing_def)

lemma github_listing_rejected:
  "fetch env u = Inl e \<Longrightarrow> github_listing env u pipeline = Inl e"
  by (simp add: github_listing_def)

text \<open>
  What each listing does with its upstream call, as the module is written:
  the three GitHub listings return the empty list on a response that is not
  \<^verbatim>\<open>ok\<close>; a rejected \<^verbatim>\<open>fetch\<close> and a failed listing request of an
  object-storage source have no handler.
\<close>

lemma upstream_call_outcomes:
  "(CoreSource \<in> set (ancestors (constructor src)) \<and> fetch env (contents_url src []) = Inr resp \<and> \<not> ok resp
      \<longrightarrow> availableNarratives env src = Inr [])
   \<and> (CommunitySource \<in> set (ancestors (constructor src))
        \<and> fetch env (contents_url src ''/narratives'') = Inr resp \<and> \<not> ok resp
      \<longrightarrow> availableNarratives env src = Inr [])
   \<and> (CommunitySource \<in> set (ancestors (constructor src))
        \<and> fetch env (contents_url src ''/auspice'') = Inr resp \<and> \<not> ok resp
      \<longrightarrow> availableDatasets env src = Inr [])
   \<and> (CoreSource \<in> set (ancestors (constructor src)) \<and> fetch env (contents_url src []) = Inl e
      \<longrightarrow> availableNarratives env src = Inl e)
   \<and> (CommunitySource \<in> set (ancestors (constructor src))
        \<and> fetch env (contents_url src ''/narratives'') = Inl e
      \<longrightarrow> availableNarratives env src = Inl e)
   \<and> (CommunitySource \<in> set (ancestors (constructor src))
        \<and> fetch env (contents_url src ''/auspice'') = Inl e
      \<longrightarrow> availableDatasets env src = Inl e)
   \<and> (S3Source \<in> set (ancestors (constructor src)) \<and> bucket src = Inr b \<and> s3_objects env b = Inl e
      \<longrightarrow> availableDatasets env src = Inl e \<and> availableNarratives env src = Inl e)"
proof -
  have core: "availableNarratives env src = core_availableNarratives env src"
    if "CoreSource \<in> set (ancestors (constructor src))"
    using that core_not_community [OF that]
    by (simp add: availableNarratives_def lookup_own_availableNarratives)
  have comm_n: "availableNarratives env src = community_availableNarratives env src"
    if "CommunitySource \<in> set (ancestors (constructor src))"
    using that by (simp add: availableNarratives_def lookup_own_availableNarratives)
  have comm_d: "availableDatasets env src = community_availableDatasets env src"
    if "CommunitySource \<in> set (ancestors (constructor src))"
    using that by (simp add: availableDatasets_def lookup_own_availableDatasets)
  have s3: "availableDatasets env src = s3_availableDatasets env src
          \<and> availableNarratives env src = s3_availableNarratives env src"
    if "S3Source \<in> set (ancestors (constructor src))"
    using that s3_not_community [OF that]
    by (simp add: availableDatasets_def availableNarratives_def
                  lookup_own_availableDatasets lookup_own_availableNarratives)
  have s3_fail: "s3_availableDatasets env src = Inl e \<and> s3_availableNarratives env src = Inl e"
    if "bucket src = Inr b" "s3_objects env b = Inl e"
    using that
    by (simp add: s3_availableDatasets_def s3_availableNarratives_def listObjects_def listObjectsV2_def)
  show ?thesis
    using core comm_n comm_d s3 s3_fail
    by (auto simp: core_availableNarratives_def community_availableNarratives_def
                   community_availableDatasets_def github_listing_not_ok github_listing_rejected)
qed

text \<open>
  Claim C6 fails on the code.  The GitHub listings turn a failed contents
  call into the empty list (\<^verbatim>\<open>if (!response.ok) { utils.warn(...); return []; }\<close>),
  and the object-storage listings have no such handling: when the listing
  request of the private group source's bucket fails,
  \<^verbatim>\<open>availableDatasets()\<close> fails with it and does not return the empty
  list.
\<close>

theorem failed_s3_listing_propagates:
  "availableDatasets (sample_env offline offline) inrb = Inl (Rejected ''network'')
   \<and> availableDatasets (sample_env offline offline) inrb \<noteq> Inr []"
  by (simp add: availableDatasets_def lookup_def inrb_def s3_availableDatasets_def listObjects_def
                listObjectsV2_def bucket_def sample_env_def offline_def)


end
